theory Spec2Isabelle
  imports Main "HOL-Library.Sublist"
begin

section \<open>The reverse proxy of portless (packages/deamon/src/proxy.ts)\<close>

text \<open>
  The development embeds \<open>proxyTarget\<close> of \<open>useReverseProxy\<close>: the construction of the
  two substitution tables from \<open>config.domains\<close>, the request listener (ACME challenge,
  the three patched methods of the response, the hand-over to the proxy), the
  \<open>upgrade\<close> listener and the \<open>error\<close> listener of the proxy.

  JavaScript strings are modelled as \<open>string\<close>, objects used as dictionaries as maps,
  \<open>undefined\<close> as \<open>None\<close>, a thrown exception as \<open>Inl\<close> of a sum.
\<close>

subsection \<open>Strings and regular expressions of the shape built by the code\<close>

text \<open>\<open>String.prototype.includes\<close>: the argument occurs somewhere in the receiver.\<close>

fun includes_str :: "string \<Rightarrow> string \<Rightarrow> bool" where
  "includes_str [] t = (t = [])"
| "includes_str (c # cs) t = (prefix t (c # cs) \<or> includes_str cs t)"

text \<open>
  The code compiles \<open>new RegExp(`(${escapedUrls.join('|')})`, 'g')\<close>. The function
  \<open>escapeReg\<close> comes from the package \<open>@portless/util\<close>, which is not among the sources;
  it is taken to escape every metacharacter, so that each alternative matches its
  hostname literally. A compiled expression is therefore the list of its literal
  alternatives, in the order of the alternation. Joining no string at all gives the empty
  string, so the expression built from an empty list is \<open>()\<close>, whose only alternative is
  the empty string.
\<close>

type_synonym regexp = "string list"

definition compile :: "string list \<Rightarrow> regexp" where
  "compile escaped = (if escaped = [] then [[]] else escaped)"

text \<open>
  At one position the alternatives are tried from left to right, and nothing follows the
  group, so the first alternative that is a prefix of the remaining input is the match.
\<close>

fun firstMatch :: "regexp \<Rightarrow> string \<Rightarrow> string option" where
  "firstMatch [] s = None"
| "firstMatch (a # as) s = (if prefix a s then Some a else firstMatch as s)"

text \<open>
  \<open>text.replace(reg, func)\<close> with the flag \<open>g\<close>: the input is scanned from the left;
  a match is replaced by the string made of what \<open>func\<close> returns for it and the scan
  resumes behind the match; an empty match is replaced too, after which the scan moves
  one character on, copying it; a character at which nothing matches is copied. At the
  end of the input only the empty match is left to try.
\<close>

function js_replace :: "regexp \<Rightarrow> (string \<Rightarrow> string) \<Rightarrow> string \<Rightarrow> string" where
  "js_replace r f [] = (case firstMatch r [] of None \<Rightarrow> [] | Some a \<Rightarrow> f a)"
| "js_replace r f (c # cs) =
     (case firstMatch r (c # cs) of
        None \<Rightarrow> c # js_replace r f cs
      | Some a \<Rightarrow>
          if a = [] then f a @ c # js_replace r f cs
          else f a @ js_replace r f (drop (length a) (c # cs)))"
  by pat_completeness auto
termination
proof (relation "measure (\<lambda>(r, f, s). length s)")
  fix r :: regexp and f :: "string \<Rightarrow> string" and c cs a
  assume "firstMatch r (c # cs) = Some a" and "a \<noteq> []"
  then show "((r, f, drop (length a) (c # cs)), (r, f, c # cs)) \<in> measure (\<lambda>(r, f, s). length s)"
    by (cases a) auto
qed auto

subsection \<open>The substitution tables (lines 68 to 93)\<close>

record domainConfig =
  targetUrl :: string
  publicUrl :: "string option"

text \<open>
  The two maps and the two expressions compiled after the loop, and the variables the
  loop fills. The functions \<open>replaceFunc\<close> and \<open>reverseReplaceFunc\<close> look the match up
  in their map; what they return is turned into a string by \<open>replace\<close>, so that a match
  without an entry gives the nine characters \<open>undefined\<close>.
\<close>

record tables =
  replaceReg :: regexp
  replaceMap :: "string \<rightharpoonup> string"
  reverseReplaceReg :: regexp
  reverseReplaceMap :: "string \<rightharpoonup> string"

record loopVars =
  fwdMap :: "string \<rightharpoonup> string"
  revMap :: "string \<rightharpoonup> string"
  escapedUrls :: "string list"
  reverseEcapedUrls :: "string list"

definition lookupFunc :: "(string \<rightharpoonup> string) \<Rightarrow> string \<Rightarrow> string" where
  "lookupFunc m matched = (case m matched of None \<Rightarrow> ''undefined'' | Some v \<Rightarrow> v)"

text \<open>
  One iteration of the loop over \<open>config.domains\<close>. \<open>getDomain\<close> is imported from
  \<open>@portless/util\<close> and is a parameter here. The test \<open>if (domainConfig.publicUrl)\<close> fails
  for a missing and for an empty public URL.
\<close>

definition addDomain :: "(string \<Rightarrow> string) \<Rightarrow> domainConfig \<Rightarrow> loopVars \<Rightarrow> loopVars" where
  "addDomain getDomain d v =
     (let targetDomain = getDomain (targetUrl d) in
      case publicUrl d of
        None \<Rightarrow> v
      | Some pu \<Rightarrow>
          if pu = [] then v
          else let publicDomain = getDomain pu in
            \<lparr> fwdMap = (fwdMap v)(targetDomain \<mapsto> publicDomain),
              revMap = (revMap v)(publicDomain \<mapsto> targetDomain),
              escapedUrls = escapedUrls v @ [targetDomain],
              reverseEcapedUrls = reverseEcapedUrls v @ [publicDomain] \<rparr>)"

definition noDomains :: loopVars where
  "noDomains = \<lparr> fwdMap = Map.empty, revMap = Map.empty,
                 escapedUrls = [], reverseEcapedUrls = [] \<rparr>"

text \<open>
  \<open>config.domains\<close> is optional: without it the six variables stay \<open>undefined\<close>, which is
  \<open>None\<close> here; with it, also when it is empty, the expressions are compiled.
\<close>

definition buildTables :: "(string \<Rightarrow> string) \<Rightarrow> domainConfig list option \<Rightarrow> tables option" where
  "buildTables getDomain domains =
     (case domains of
        None \<Rightarrow> None
      | Some ds \<Rightarrow>
          let v = fold (addDomain getDomain) ds noDomains in
          Some \<lparr> replaceReg = compile (escapedUrls v), replaceMap = fwdMap v,
                 reverseReplaceReg = compile (reverseEcapedUrls v),
                 reverseReplaceMap = revMap v \<rparr>)"

definition replaceFunc :: "tables \<Rightarrow> string \<Rightarrow> string" where
  "replaceFunc t matched = lookupFunc (replaceMap t) matched"

definition reverseReplaceFunc :: "tables \<Rightarrow> string \<Rightarrow> string" where
  "reverseReplaceFunc t matched = lookupFunc (reverseReplaceMap t) matched"

text \<open>
  \<open>text.replace(replaceReg, replaceFunc)\<close> and
  \<open>text.replace(reverseReplaceReg, reverseReplaceFunc)\<close>.
\<close>

definition forwardSub :: "tables \<Rightarrow> string \<Rightarrow> string" where
  "forwardSub t s = js_replace (replaceReg t) (replaceFunc t) s"


text \<open>
  Modelled from the spec: \<open>getDomain\<close> of \<open>@portless/util\<close> is missing. The scenarios of the
  specification pair the URL \<open>http://localhost:3000\<close> with the hostname \<open>localhost:3000\<close>
  and \<open>https://app.example\<close> with \<open>app.example\<close>: the hostname is what follows the scheme
  separator. This function is used for the concrete configurations only; every general
  statement below holds for any \<open>getDomain\<close>.
\<close>

fun afterScheme :: "string \<Rightarrow> string" where
  "afterScheme [] = []"
| "afterScheme (c # cs) = (if prefix ''://'' (c # cs) then drop 3 (c # cs) else afterScheme cs)"

definition scenarioDomains :: "domainConfig list" where
  "scenarioDomains =
     [\<lparr> targetUrl = ''http://localhost:3000'', publicUrl = Some ''https://app.example'' \<rparr>]"

definition scenarioTables :: tables where
  "scenarioTables = the (buildTables afterScheme (Some scenarioDomains))"

subsection \<open>The response object of the runtime\<close>

text \<open>
  A header value is what \<open>getHeader\<close> can return: a string, a number or a list of
  strings. Header names are taken in the lower-case form in which the runtime stores and
  compares them. A body chunk is a string or a buffer; \<open>toString\<close> of a buffer is its
  text.
\<close>

datatype hval = HStr string | HNum int | HArr "string list"

datatype chunk = Str string | Buf string

datatype error = TypeError | HeadersSent | WriteAfterEnd

type_synonym headers = "string \<rightharpoonup> hval"

fun truthy :: "hval \<Rightarrow> bool" where
  "truthy (HStr s) = (s \<noteq> [])"
| "truthy (HNum n) = (n \<noteq> 0)"
| "truthy (HArr xs) = True"

fun toString :: "chunk \<Rightarrow> string" where
  "toString (Str s) = s"
| "toString (Buf s) = s"

record response =
  statusCode :: nat
  resHeaders :: headers
  headersSent :: bool
  body :: "chunk list"
  finished :: bool

text \<open>
  The arguments of \<open>writeHead(statusCode[, statusMessage][, headers])\<close>. The source
  takes \<open>args[2]\<close> for the headers when there are more than two arguments and \<open>args[1]\<close>
  otherwise; a status message standing at \<open>args[1]\<close> has none of the properties the
  source reads, so it counts as no headers.
\<close>

record whArgs =
  whStatus :: nat
  whMessage :: "string option"
  whHeaders :: "headers option"

definition andThen :: "error + 'a \<Rightarrow> ('a \<Rightarrow> error + 'b) \<Rightarrow> error + 'b" where
  "andThen m f = (case m of Inl e \<Rightarrow> Inl e | Inr x \<Rightarrow> f x)"

definition getHeader :: "string \<Rightarrow> 'a response_scheme \<Rightarrow> hval option" where
  "getHeader name r = resHeaders r name"

definition setHeader :: "string \<Rightarrow> hval \<Rightarrow> 'a response_scheme \<Rightarrow> error + 'a response_scheme" where
  "setHeader name v r =
     (if headersSent r then Inl HeadersSent
      else Inr (r\<lparr>resHeaders := (resHeaders r)(name \<mapsto> v)\<rparr>))"

definition removeHeader :: "string \<Rightarrow> 'a response_scheme \<Rightarrow> error + 'a response_scheme" where
  "removeHeader name r =
     (if headersSent r then Inl HeadersSent
      else Inr (r\<lparr>resHeaders := (resHeaders r)(name := None)\<rparr>))"

text \<open>
  The \<open>writeHead\<close> of the runtime sets the status, adds the headers of its argument to
  those already set and flushes the head; from then on \<open>resHeaders\<close> is the header block
  that was sent, since every later change of a header throws.
\<close>

definition nativeWriteHead :: "whArgs \<Rightarrow> 'a response_scheme \<Rightarrow> error + 'a response_scheme" where
  "nativeWriteHead args r =
     (if headersSent r then Inl HeadersSent
      else Inr (r\<lparr>statusCode := whStatus args,
                  resHeaders := (case whHeaders args of
                                   None \<Rightarrow> resHeaders r
                                 | Some h \<Rightarrow> resHeaders r ++ h),
                  headersSent := True\<rparr>))"

text \<open>
  A write or an end that finds the head not yet sent flushes it implicitly: the runtime
  calls \<open>this.writeHead(this.statusCode)\<close>, that is the method the object has at that
  moment, which is the parameter \<open>wh\<close>.
\<close>

definition implicitHeader ::
  "(whArgs \<Rightarrow> 'a response_scheme \<Rightarrow> error + 'a response_scheme) \<Rightarrow>
   'a response_scheme \<Rightarrow> error + 'a response_scheme" where
  "implicitHeader wh r =
     (if headersSent r then Inr r
      else wh \<lparr>whStatus = statusCode r, whMessage = None, whHeaders = None\<rparr> r)"

definition nativeWrite ::
  "(whArgs \<Rightarrow> 'a response_scheme \<Rightarrow> error + 'a response_scheme) \<Rightarrow>
   chunk \<Rightarrow> 'a response_scheme \<Rightarrow> error + 'a response_scheme" where
  "nativeWrite wh data r =
     (if finished r then Inl WriteAfterEnd
      else andThen (implicitHeader wh r) (\<lambda>r'. Inr (r'\<lparr>body := body r' @ [data]\<rparr>)))"

definition nativeEnd ::
  "(whArgs \<Rightarrow> 'a response_scheme \<Rightarrow> error + 'a response_scheme) \<Rightarrow>
   chunk option \<Rightarrow> 'a response_scheme \<Rightarrow> error + 'a response_scheme" where
  "nativeEnd wh data r =
     (case data of
        Some d \<Rightarrow> andThen (nativeWrite wh d r) (\<lambda>r'. Inr (r'\<lparr>finished := True\<rparr>))
      | None \<Rightarrow>
          if finished r then Inr r
          else andThen (implicitHeader wh r) (\<lambda>r'. Inr (r'\<lparr>finished := True\<rparr>)))"

subsection \<open>The patched response (lines 106 to 162)\<close>

text \<open>The closure variable \<open>shouldRewrite\<close> lives as long as the response.\<close>

record wrapped = response +
  shouldRewrite :: bool

definition rewritableTypes :: "string list" where
  "rewritableTypes = [''text/html'', ''text/css'', ''application/javascript'']"

text \<open>
  Line 115: \<open>res.getHeader('content-type') || (headers ? headers['content-type'] : undefined)\<close>.
\<close>

definition declaredContentType :: "'a response_scheme \<Rightarrow> headers option \<Rightarrow> hval option" where
  "declaredContentType r hs =
     (let fromArgs = (case hs of None \<Rightarrow> None | Some h \<Rightarrow> h ''content-type'') in
      case getHeader ''content-type'' r of
        None \<Rightarrow> fromArgs
      | Some v \<Rightarrow> if truthy v then Some v else fromArgs)"

text \<open>
  Lines 116 to 120. \<open>includes\<close> of a string looks for a substring, \<open>includes\<close> of an
  array for an element, and a number has no such method.
\<close>

definition decide :: "hval option \<Rightarrow> error + bool" where
  "decide contentType =
     (case contentType of
        None \<Rightarrow> Inr False
      | Some v \<Rightarrow>
          if \<not> truthy v then Inr False
          else (case v of
                  HStr s \<Rightarrow> Inr (list_ex (includes_str s) rewritableTypes)
                | HArr xs \<Rightarrow> Inr (list_ex (\<lambda>t. t \<in> set xs) rewritableTypes)
                | HNum n \<Rightarrow> Inl TypeError))"

definition acao :: string where
  "acao = ''access-control-allow-origin''"

text \<open>Lines 122 to 128: the length header goes when the body is going to change.\<close>

definition dropLength :: "bool \<Rightarrow> wrapped \<Rightarrow> headers option \<Rightarrow> error + (wrapped \<times> headers option)" where
  "dropLength sr g hs =
     (if sr then
        andThen (removeHeader ''content-length'' g)
          (\<lambda>g'. Inr (g', map_option (\<lambda>h. h(''content-length'' := None)) hs))
      else Inr (g, hs))"

text \<open>Lines 131 to 134: the header set on the response, when it is a non-empty string.\<close>

definition corsOfResponse :: "tables \<Rightarrow> wrapped \<Rightarrow> error + wrapped" where
  "corsOfResponse t g =
     (case getHeader acao g of
        Some (HStr c) \<Rightarrow> if c \<noteq> [] then setHeader acao (HStr (forwardSub t c)) g else Inr g
      | _ \<Rightarrow> Inr g)"

text \<open>
  Lines 135 to 137: the header of the headers object; \<open>replace\<close> is called on whatever
  truthy value stands there, and only a string has it.
\<close>

definition corsOfArgs :: "tables \<Rightarrow> headers option \<Rightarrow> error + headers option" where
  "corsOfArgs t hs =
     (case hs of
        None \<Rightarrow> Inr None
      | Some h \<Rightarrow>
          (case h acao of
             None \<Rightarrow> Inr (Some h)
           | Some v \<Rightarrow>
               if \<not> truthy v then Inr (Some h)
               else (case v of
                       HStr c \<Rightarrow> Inr (Some (h(acao \<mapsto> HStr (forwardSub t c))))
                     | _ \<Rightarrow> Inl TypeError)))"

text \<open>
  The body of the patched \<open>writeHead\<close> before it calls the original: the decision, the
  two header changes, and the arguments as they are handed on.
\<close>

definition patchHead :: "tables \<Rightarrow> whArgs \<Rightarrow> wrapped \<Rightarrow> error + (wrapped \<times> whArgs)" where
  "patchHead t args g =
     andThen (decide (declaredContentType g (whHeaders args))) (\<lambda>sr.
     andThen (dropLength sr (g\<lparr>shouldRewrite := sr\<rparr>) (whHeaders args)) (\<lambda>(g1, hs1).
     andThen (corsOfResponse t g1) (\<lambda>g2.
     andThen (corsOfArgs t hs1) (\<lambda>hs2.
       Inr (g2, args\<lparr>whHeaders := hs2\<rparr>)))))"

definition writeHeadW :: "tables \<Rightarrow> whArgs \<Rightarrow> wrapped \<Rightarrow> error + wrapped" where
  "writeHeadW t args g =
     andThen (patchHead t args g) (\<lambda>(g', args'). nativeWriteHead args' g')"

text \<open>Lines 142 to 156.\<close>

definition writeW :: "tables \<Rightarrow> chunk \<Rightarrow> wrapped \<Rightarrow> error + wrapped" where
  "writeW t data g =
     (if shouldRewrite g then
        nativeWrite (writeHeadW t) (Str (forwardSub t (toString data))) g
      else nativeWrite (writeHeadW t) data g)"

text \<open>Lines 158 to 161: \<open>res.end = () => { _end() }\<close> takes no argument and passes none.\<close>

definition endW :: "tables \<Rightarrow> chunk option \<Rightarrow> wrapped \<Rightarrow> error + wrapped" where
  "endW t data g = nativeEnd (writeHeadW t) None g"

text \<open>
  The methods of a response handed to the proxy: patched when \<open>replaceReg\<close> is defined
  (line 106), those of the runtime otherwise.
\<close>

definition resWriteHead :: "tables option \<Rightarrow> whArgs \<Rightarrow> wrapped \<Rightarrow> error + wrapped" where
  "resWriteHead gate = (case gate of None \<Rightarrow> nativeWriteHead | Some t \<Rightarrow> writeHeadW t)"

definition resWrite :: "tables option \<Rightarrow> chunk \<Rightarrow> wrapped \<Rightarrow> error + wrapped" where
  "resWrite gate =
     (case gate of None \<Rightarrow> nativeWrite nativeWriteHead | Some t \<Rightarrow> writeW t)"

definition resEnd :: "tables option \<Rightarrow> chunk option \<Rightarrow> wrapped \<Rightarrow> error + wrapped" where
  "resEnd gate =
     (case gate of None \<Rightarrow> nativeEnd nativeWriteHead | Some t \<Rightarrow> endW t)"

text \<open>
  What the holder of the response does with it is a sequence of calls; an exception ends
  it.
\<close>

datatype call = SetHeader string hval | WriteHead whArgs | Write chunk | End "chunk option"

fun perform :: "tables option \<Rightarrow> call \<Rightarrow> wrapped \<Rightarrow> error + wrapped" where
  "perform gate (SetHeader name v) g = setHeader name v g"
| "perform gate (WriteHead args) g = resWriteHead gate args g"
| "perform gate (Write data) g = resWrite gate data g"
| "perform gate (End data) g = resEnd gate data g"

fun performAll :: "tables option \<Rightarrow> call list \<Rightarrow> wrapped \<Rightarrow> error + wrapped" where
  "performAll gate [] g = Inr g"
| "performAll gate (c # cs) g = andThen (perform gate c g) (performAll gate cs)"

text \<open>A response as \<open>http.createServer\<close> hands it to the listener: status 200, nothing set.\<close>

definition freshResponse :: wrapped where
  "freshResponse = \<lparr> statusCode = 200, resHeaders = Map.empty, headersSent = False,
                      body = [], finished = False, shouldRewrite = False \<rparr>"

subsection \<open>The request listener (lines 95 to 166)\<close>

definition acmeChallengePath :: string where
  "acmeChallengePath = ''/.well-known/acme-challenge/''"

record request =
  url :: "string option"

record reverseProxyOptions =
  publicKeyId :: "string option"

text \<open>
  The listener either answers by itself or hands request and response to
  \<open>proxy.web\<close>, the response patched when the tables exist. The two tests of lines 97
  and 98 fail for \<open>undefined\<close> and for the empty string.
\<close>

datatype outcome = Answered wrapped | Proxied "tables option"

definition challengeToken :: "reverseProxyOptions \<Rightarrow> request \<Rightarrow> (string \<times> string) option" where
  "challengeToken options req =
     (case publicKeyId options of
        None \<Rightarrow> None
      | Some k \<Rightarrow>
          if k = [] then None
          else (case url req of
                  None \<Rightarrow> None
                | Some u \<Rightarrow>
                    if u \<noteq> [] \<and> prefix acmeChallengePath u
                    then Some (drop (length acmeChallengePath) u, k)
                    else None))"

definition requestListener ::
  "reverseProxyOptions \<Rightarrow> tables option \<Rightarrow> request \<Rightarrow> error + outcome" where
  "requestListener options gate req =
     (case challengeToken options req of
        Some (token, k) \<Rightarrow>
          andThen (nativeWrite nativeWriteHead (Str (token @ ''.'' @ k)) freshResponse) (\<lambda>r.
          andThen (nativeEnd nativeWriteHead None r) (\<lambda>r'. Inr (Answered r')))
      | None \<Rightarrow> Inr (Proxied gate))"

subsection \<open>The upgrade listener (lines 168 to 180)\<close>

datatype originHeader = One string | Many "string list"

record upgradeRequest =
  host :: "string option"
  origin :: "originHeader option"



subsection \<open>The error listener of the proxy (lines 51 to 65)\<close>

record transportError =
  message :: string
  stack :: "string option"

definition notFoundPrefix :: string where
  "notFoundPrefix = ''getaddrinfo ENOTFOUND''"

definition errorMessageOf :: "string \<Rightarrow> string" where
  "errorMessageOf msg =
     (if prefix notFoundPrefix msg
      then ''Can'' @ [CHR 0x27] @ ''t find host <b>'' @ drop (length notFoundPrefix + 1) msg @ ''</b>''
      else msg)"

text \<open>
  \<open>renderTemplate\<close> belongs to the package \<open>@portless/template\<close> and is a parameter: it
  gets the error message and the stack and returns the page. The response is the one
  the request listener handed to the proxy, so its methods are the patched ones when
  the tables exist.
\<close>

definition onError ::
  "(string \<Rightarrow> string option \<Rightarrow> string) \<Rightarrow> tables option \<Rightarrow> transportError \<Rightarrow> wrapped \<Rightarrow>
   error + wrapped" where
  "onError renderTemplate gate err g =
     andThen (resWriteHead gate
                \<lparr> whStatus = 500, whMessage = None,
                  whHeaders = Some [''ContentType'' \<mapsto> HStr ''text/html; charset=utf-8''] \<rparr> g)
       (\<lambda>g'. resEnd gate
                (Some (Str (renderTemplate (errorMessageOf (message err)) (stack err)))) g')"

subsection \<open>Configurations used in the examples\<close>

text \<open>A domain configuration without a public URL.\<close>

definition noPublicDomains :: "domainConfig list" where
  "noPublicDomains = [\<lparr> targetUrl = ''http://localhost:3000'', publicUrl = None \<rparr>]"

definition noPublicTables :: tables where
  "noPublicTables = the (buildTables afterScheme (Some noPublicDomains))"



text \<open>
  What the holder of a proxied response does with a page whose head it sets and whose
  body it writes in two chunks, without calling \<open>writeHead\<close>; the same for a small page
  of which the length is declared; and a response that is ended with a last chunk.
\<close>

definition implicitFlushCalls :: "call list" where
  "implicitFlushCalls =
     [SetHeader ''content-type'' (HStr ''text/html''),
      SetHeader ''content-length'' (HNum 28),
      SetHeader ''access-control-allow-origin'' (HStr ''http://localhost:3000''),
      Write (Str ''localhost:3000''), Write (Str ''localhost:3000'')]"

definition smallPageCalls :: "call list" where
  "smallPageCalls =
     [SetHeader ''content-type'' (HStr ''text/html''), SetHeader ''content-length'' (HNum 4),
      Write (Str ''hi''), Write (Str ''ab''), End None]"

definition endWithChunkCalls :: "call list" where
  "endWithChunkCalls =
     [SetHeader ''content-type'' (HStr ''text/html''), Write (Str ''a''), End (Some (Str ''b''))]"

subsection \<open>The claims in the words of the specification\<close>

text \<open>
  The decision as the specification words it: a content type is declared and contains
  one of the three type names.
\<close>

definition specRewriteDecision :: "hval option \<Rightarrow> bool" where
  "specRewriteDecision ct =
     (case ct of
        Some (HStr s) \<Rightarrow>
          sublist ''text/html'' s \<or> sublist ''text/css'' s \<or> sublist ''application/javascript'' s
      | _ \<Rightarrow> False)"

text \<open>A content type that is text, or none at all.\<close>

definition textual :: "hval option \<Rightarrow> bool" where
  "textual ct = (case ct of None \<Rightarrow> True | Some (HStr s) \<Rightarrow> True | _ \<Rightarrow> False)"









text \<open>A fresh response on which the proxy has set headers, and a call with the status alone.\<close>

definition withHeaders :: "headers \<Rightarrow> wrapped" where
  "withHeaders hs = freshResponse\<lparr>resHeaders := hs\<rparr>"

definition statusOnly :: whArgs where
  "statusOnly = \<lparr> whStatus = 200, whMessage = None, whHeaders = None \<rparr>"


text \<open>The response of the same page once its three headers are set.\<close>

definition declaredPage :: wrapped where
  "declaredPage =
     withHeaders [''content-type'' \<mapsto> HStr ''text/html'',
                  ''content-length'' \<mapsto> HNum 28,
                  ''access-control-allow-origin'' \<mapsto> HStr ''http://localhost:3000'']"


section \<open>Properties\<close>

subsection \<open>Evaluation of the example configurations\<close>

lemma scenarioTables_fields:
  "replaceReg scenarioTables = [''localhost:3000'']"
  "replaceMap scenarioTables = [''localhost:3000'' \<mapsto> ''app.example'']"
  "reverseReplaceReg scenarioTables = [''app.example'']"
  "reverseReplaceMap scenarioTables = [''app.example'' \<mapsto> ''localhost:3000'']"
  by (simp_all add: scenarioTables_def buildTables_def scenarioDomains_def addDomain_def
      noDomains_def compile_def Let_def)

lemma noPublicTables_fields:
  "replaceReg noPublicTables = [[]]"
  "replaceMap noPublicTables = Map.empty"
  "reverseReplaceReg noPublicTables = [[]]"
  "reverseReplaceMap noPublicTables = Map.empty"
  by (simp_all add: noPublicTables_def buildTables_def noPublicDomains_def addDomain_def
      noDomains_def compile_def Let_def)


lemmas run_defs = andThen_def resWriteHead_def resWrite_def resEnd_def writeW_def endW_def
  writeHeadW_def patchHead_def corsOfArgs_def corsOfResponse_def dropLength_def decide_def
  declaredContentType_def rewritableTypes_def nativeWrite_def nativeEnd_def implicitHeader_def
  nativeWriteHead_def setHeader_def removeHeader_def getHeader_def freshResponse_def acao_def
  forwardSub_def lookupFunc_def replaceFunc_def reverseReplaceFunc_def

lemma includes_str_sublist: "includes_str s t = sublist t s"
  by (induction s) (simp_all add: sublist_Cons_right)

subsection \<open>The scan of a text made of hostnames\<close>












subsection \<open>The patched writeHead, step by step\<close>

lemma decide_textual: "textual ct \<Longrightarrow> decide ct = Inr (specRewriteDecision ct)"
  by (auto simp: textual_def decide_def specRewriteDecision_def rewritableTypes_def
      includes_str_sublist split: option.splits hval.splits)

lemma patchHead_no_length:
  "patchHead t args g = Inr (g1, args1) \<Longrightarrow> shouldRewrite g1 \<Longrightarrow>
   resHeaders g1 ''content-length'' = None \<and>
   (\<forall>h. whHeaders args1 = Some h \<longrightarrow> h ''content-length'' = None)"
  by (auto simp: patchHead_def andThen_def dropLength_def corsOfResponse_def
      corsOfArgs_def setHeader_def removeHeader_def getHeader_def acao_def
      split: sum.splits option.splits if_splits hval.splits prod.splits)

lemma patchHead_decision:
  "patchHead t args g = Inr (g1, args1) \<Longrightarrow>
   decide (declaredContentType g (whHeaders args)) = Inr (shouldRewrite g1)"
  by (auto simp: patchHead_def andThen_def dropLength_def corsOfResponse_def
      corsOfArgs_def setHeader_def removeHeader_def getHeader_def
      split: sum.splits option.splits if_splits hval.splits prod.splits)

lemma patchHead_cors_response:
  "patchHead t args g = Inr (g1, args1) \<Longrightarrow> getHeader acao g = Some (HStr v) \<Longrightarrow> v \<noteq> [] \<Longrightarrow>
   resHeaders g1 acao = Some (HStr (forwardSub t v))"
  by (auto simp: patchHead_def andThen_def dropLength_def corsOfResponse_def
      corsOfArgs_def setHeader_def removeHeader_def getHeader_def acao_def
      split: sum.splits option.splits if_splits hval.splits prod.splits)


lemma patchHead_implicit:
  "\<not> headersSent g \<Longrightarrow> whHeaders args = None \<Longrightarrow>
   decide (declaredContentType g None) = Inr sr \<Longrightarrow>
   \<exists>g1. patchHead t args g = Inr (g1, args) \<and> \<not> headersSent g1 \<and> shouldRewrite g1 = sr \<and>
        body g1 = body g \<and> finished g1 = finished g"
  by (auto simp: patchHead_def andThen_def dropLength_def corsOfResponse_def
      corsOfArgs_def setHeader_def removeHeader_def getHeader_def
      split: sum.splits option.splits if_splits hval.splits prod.splits)

lemma writeHeadW_split:
  "writeHeadW t args g = Inr g' \<Longrightarrow>
   \<exists>g1 args1. patchHead t args g = Inr (g1, args1) \<and> nativeWriteHead args1 g1 = Inr g'"
  by (auto simp: writeHeadW_def andThen_def split: sum.splits prod.splits)

lemma nativeWriteHead_result:
  "nativeWriteHead args1 g1 = Inr g' \<Longrightarrow>
   headersSent g' \<and> shouldRewrite g' = shouldRewrite g1 \<and> body g' = body g1 \<and>
   finished g' = finished g1 \<and> statusCode g' = whStatus args1 \<and>
   resHeaders g' = (case whHeaders args1 of None \<Rightarrow> resHeaders g1 | Some h \<Rightarrow> resHeaders g1 ++ h)"
  by (auto simp: nativeWriteHead_def split: if_splits)

text \<open>
  The patched \<open>writeHead\<close> called with the status code alone, as the implicit flush
  calls it, returns whenever the head is still unsent and the decision can be taken.
\<close>

lemma writeHeadW_implicit:
  assumes "\<not> headersSent g" and "whHeaders args = None"
    and "decide (declaredContentType g None) = Inr sr"
  shows "\<exists>g'. writeHeadW t args g = Inr g' \<and> headersSent g' \<and> shouldRewrite g' = sr \<and>
           body g' = body g \<and> finished g' = finished g \<and>
           (sr \<longrightarrow> getHeader ''content-length'' g' = None) \<and>
           (\<forall>v. getHeader acao g = Some (HStr v) \<and> v \<noteq> [] \<longrightarrow>
                getHeader acao g' = Some (HStr (forwardSub t v)))"
proof -
  from patchHead_implicit [OF assms, of t]
  obtain g1 where p: "patchHead t args g = Inr (g1, args)" and g1: "\<not> headersSent g1"
    "shouldRewrite g1 = sr" "body g1 = body g" "finished g1 = finished g" by blast
  define g' where "g' = g1\<lparr>statusCode := whStatus args, headersSent := True\<rparr>"
  from g1 assms(2) have n: "nativeWriteHead args g1 = Inr g'"
    by (simp add: nativeWriteHead_def g'_def)
  from p n have w: "writeHeadW t args g = Inr g'" by (simp add: writeHeadW_def andThen_def)
  have l: "sr \<longrightarrow> getHeader ''content-length'' g' = None"
    using patchHead_no_length [OF p] g1 by (simp add: g'_def getHeader_def)
  have c: "getHeader acao g' = Some (HStr (forwardSub t v))"
    if "getHeader acao g = Some (HStr v) \<and> v \<noteq> []" for v
    using patchHead_cors_response [OF p, of v] that by (simp add: g'_def getHeader_def)
  from w l c g1 show ?thesis by (auto simp: g'_def)
qed








text \<open>
  When no domain configuration has a public URL the loop changes nothing: both maps stay
  empty and both expressions are compiled from the empty list.
\<close>

lemma fold_addDomain_no_public:
  "\<forall>d\<in>set ds. publicUrl d = None \<or> publicUrl d = Some [] \<Longrightarrow> fold (addDomain gd) ds v = v"
  by (induction ds arbitrary: v) (auto simp: addDomain_def Let_def)

lemma buildTables_no_public:
  "\<forall>d\<in>set ds. publicUrl d = None \<or> publicUrl d = Some [] \<Longrightarrow>
   buildTables gd (Some ds) = Some \<lparr> replaceReg = [[]], replaceMap = Map.empty,
      reverseReplaceReg = [[]], reverseReplaceMap = Map.empty \<rparr>"
  by (simp add: buildTables_def fold_addDomain_no_public noDomains_def compile_def)

subsection \<open>Claims\<close>

text \<open>
  C1. The claim: when no domain configuration defines a public host the tables are empty
  and the rewriting is bypassed, so that every chunk and header passes unchanged. The
  code bypasses only when \<open>config.domains\<close> is missing. With a domain configuration
  that has no public URL the maps are empty, but the compiled expression is \<open>()\<close>, which
  is defined and matches the empty string everywhere: the response is patched, the
  length header is removed and a chunk written after the head has the lookup result
  \<open>undefined\<close> inserted at every position. The theorem evaluates the code there, and
  the unpatched response beside it.
\<close>

theorem no_public_url_still_rewrites:
  "buildTables afterScheme (Some noPublicDomains) = Some noPublicTables \<and>
   replaceReg noPublicTables = [[]] \<and>
   map_sum id body (performAll (Some noPublicTables) smallPageCalls freshResponse)
     = Inr [Str ''hi'', Str ''undefinedaundefinedbundefined''] \<and>
   map_sum id (getHeader ''content-length'')
     (performAll (Some noPublicTables) smallPageCalls freshResponse) = Inr None \<and>
   map_sum id body (performAll None smallPageCalls freshResponse)
     = Inr [Str ''hi'', Str ''ab'']"
proof (intro conjI)
  show "buildTables afterScheme (Some noPublicDomains) = Some noPublicTables"
    by (simp add: noPublicTables_def buildTables_def Let_def)
  show "replaceReg noPublicTables = [[]]"
    by (simp add: noPublicTables_fields)
  show "map_sum id body (performAll (Some noPublicTables) smallPageCalls freshResponse)
     = Inr [Str ''hi'', Str ''undefinedaundefinedbundefined'']"
    by (simp add: smallPageCalls_def run_defs noPublicTables_fields)
  show "map_sum id (getHeader ''content-length'')
     (performAll (Some noPublicTables) smallPageCalls freshResponse) = Inr None"
    by (simp add: smallPageCalls_def run_defs noPublicTables_fields)
  show "map_sum id body (performAll None smallPageCalls freshResponse)
     = Inr [Str ''hi'', Str ''ab'']"
    by (simp add: smallPageCalls_def run_defs)
qed

text \<open>
  C2. A request whose path begins with the challenge prefix, with a key identifier
  configured (defined and not empty, which is what the test of line 97 asks), is answered
  at once: status 200, the single body chunk \<open>token.keyIdentifier\<close>, the response ended,
  and nothing handed to the proxy. Without a key identifier every request is handed to the
  proxy.
\<close>

theorem acme_challenge_answered:
  "(publicKeyId options = Some k \<and> k \<noteq> [] \<and> url req = Some (acmeChallengePath @ token) \<longrightarrow>
      requestListener options gate req =
        Inr (Answered \<lparr> statusCode = 200, resHeaders = Map.empty, headersSent = True,
                        body = [Str (token @ ''.'' @ k)], finished = True,
                        shouldRewrite = False \<rparr>)) \<and>
   (publicKeyId options = None \<longrightarrow> requestListener options gate req = Inr (Proxied gate))"
  by (auto simp: requestListener_def challengeToken_def andThen_def nativeWrite_def nativeEnd_def
      implicitHeader_def nativeWriteHead_def freshResponse_def acmeChallengePath_def)

theorem acme_challenge_answered_witness:
  "requestListener \<lparr> publicKeyId = Some ''kid42'' \<rparr> None
     \<lparr> url = Some ''/.well-known/acme-challenge/abc123'' \<rparr> =
     Inr (Answered \<lparr> statusCode = 200, resHeaders = Map.empty, headersSent = True,
                     body = [Str ''abc123.kid42''], finished = True, shouldRewrite = False \<rparr>) \<and>
   requestListener \<lparr> publicKeyId = None \<rparr> (Some scenarioTables)
     \<lparr> url = Some ''/.well-known/acme-challenge/abc123'' \<rparr> = Inr (Proxied (Some scenarioTables))"
  using acme_challenge_answered [of "\<lparr> publicKeyId = Some ''kid42'' \<rparr>" "''kid42''"
              "\<lparr> url = Some ''/.well-known/acme-challenge/abc123'' \<rparr>" "''abc123''" None]
        acme_challenge_answered [of "\<lparr> publicKeyId = None \<rparr>" "''kid42''"
              "\<lparr> url = Some ''/.well-known/acme-challenge/abc123'' \<rparr>" "''abc123''"
              "Some scenarioTables"]
  by (simp add: acmeChallengePath_def)

text \<open>
  C3. For a content type that is text or missing, the decision taken by the patched
  \<open>writeHead\<close> is the one the specification words: true exactly when a content type is
  declared and contains \<open>text/html\<close>, \<open>text/css\<close> or \<open>application/javascript\<close>. It is
  the value of \<open>shouldRewrite\<close> after every call that returns, and the call made by the
  implicit flush does return.
\<close>

theorem rewrite_decision_by_content_type:
  "textual ct \<Longrightarrow> declaredContentType g (whHeaders args) = ct \<Longrightarrow>
     decide ct = Inr (specRewriteDecision ct) \<and>
     (\<forall>g'. writeHeadW t args g = Inr g' \<longrightarrow> shouldRewrite g' = specRewriteDecision ct) \<and>
     (\<not> headersSent g \<and> whHeaders args = None \<longrightarrow> (\<exists>g'. writeHeadW t args g = Inr g'))"
proof -
  assume tx: "textual ct" and ct: "declaredContentType g (whHeaders args) = ct"
  have d: "decide ct = Inr (specRewriteDecision ct)" using tx by (rule decide_textual)
  have "shouldRewrite g' = specRewriteDecision ct" if "writeHeadW t args g = Inr g'" for g'
  proof -
    from that obtain g1 args1 where p: "patchHead t args g = Inr (g1, args1)"
      and n: "nativeWriteHead args1 g1 = Inr g'" using writeHeadW_split by blast
    from patchHead_decision [OF p] ct d nativeWriteHead_result [OF n] show ?thesis by simp
  qed
  moreover have "\<exists>g'. writeHeadW t args g = Inr g'"
    if "\<not> headersSent g \<and> whHeaders args = None"
    using writeHeadW_implicit [of g args "specRewriteDecision ct" t] that ct d by auto
  ultimately show ?thesis using d by blast
qed

theorem rewrite_decision_by_content_type_witness:
  "decide (declaredContentType (withHeaders [''content-type'' \<mapsto> HStr ''text/html; charset=utf-8'']) None)
     = Inr True \<and>
   decide (declaredContentType (withHeaders [''content-type'' \<mapsto> HStr ''application/javascript'']) None)
     = Inr True \<and>
   decide (declaredContentType (withHeaders [''content-type'' \<mapsto> HStr ''application/octet-stream'']) None)
     = Inr False \<and>
   decide (declaredContentType (withHeaders Map.empty) None) = Inr False"
proof -
  have ct: "declaredContentType (withHeaders [''content-type'' \<mapsto> HStr (c # cs)]) (whHeaders statusOnly)
            = Some (HStr (c # cs))" for c cs
    by (simp add: declaredContentType_def withHeaders_def freshResponse_def getHeader_def
        statusOnly_def)
  have no: "declaredContentType (withHeaders Map.empty) (whHeaders statusOnly) = None"
    by (simp add: declaredContentType_def withHeaders_def freshResponse_def getHeader_def
        statusOnly_def)
  have tx: "textual (Some (HStr s))" "textual None" for s by (simp_all add: textual_def)
  have ev: "specRewriteDecision (Some (HStr ''text/html; charset=utf-8''))"
    "specRewriteDecision (Some (HStr ''application/javascript''))"
    "\<not> specRewriteDecision (Some (HStr ''application/octet-stream''))"
    "\<not> specRewriteDecision None"
    by (simp_all add: specRewriteDecision_def includes_str_sublist [symmetric])
  have so: "whHeaders statusOnly = None" by (simp add: statusOnly_def)
  show ?thesis
    using rewrite_decision_by_content_type [OF tx(1) ct, of "CHR ''t''" "''ext/html; charset=utf-8''" scenarioTables]
      rewrite_decision_by_content_type [OF tx(1) ct, of "CHR ''a''" "''pplication/javascript''" scenarioTables]
      rewrite_decision_by_content_type [OF tx(1) ct, of "CHR ''a''" "''pplication/octet-stream''" scenarioTables]
      rewrite_decision_by_content_type [OF tx(2) no, of scenarioTables]
    unfolding so using ev ct [unfolded so] no [unfolded so] by simp
qed










text \<open>
  C8. The claim: the body sent is the sequence of chunks written, the chunk handed to
  \<open>end\<close> included. The patched \<open>end\<close> takes no argument and calls the original without
  one, so a final chunk handed to \<open>end\<close> is lost; the unpatched response sends it.
\<close>

theorem end_drops_final_chunk:
  "map_sum id body (performAll (Some scenarioTables) endWithChunkCalls freshResponse)
     = Inr [Str ''a''] \<and>
   map_sum id body (performAll None endWithChunkCalls freshResponse)
     = Inr [Str ''a'', Str ''b'']"
  by (simp add: endWithChunkCalls_def run_defs scenarioTables_fields)

text \<open>
  C9. The claim: a failed forwarding is answered with status 500 and the rendered
  diagnostic page. The error listener sends the page as the argument of \<open>end\<close>; on a
  patched response, that is whenever \<open>config.domains\<close> exists, the argument is dropped
  and the answer is a 500 with an empty body. Without \<open>config.domains\<close> the page is
  sent, with the reworded message for a host that was not found.
\<close>

theorem error_page_dropped_when_patched:
  "map_sum id statusCode (onError renderTemplate (Some t) err freshResponse) = Inr 500 \<and>
   map_sum id body (onError renderTemplate (Some t) err freshResponse) = Inr [] \<and>
   map_sum id finished (onError renderTemplate (Some t) err freshResponse) = Inr True \<and>
   map_sum id statusCode (onError renderTemplate None err freshResponse) = Inr 500 \<and>
   map_sum id body (onError renderTemplate None err freshResponse) =
     Inr [Str (renderTemplate (errorMessageOf (message err)) (stack err))] \<and>
   errorMessageOf ''getaddrinfo ENOTFOUND foo.local'' =
     ''Can'' @ [CHR 0x27] @ ''t find host <b>foo.local</b>''"
  by (simp add: onError_def run_defs errorMessageOf_def notFoundPrefix_def)

text \<open>
  C10. The claim: without an explicit call of \<open>writeHead\<close> the decision stays disabled,
  every chunk passes unchanged and no header is touched. The implicit flush of the
  runtime calls the \<open>writeHead\<close> the object has, which is the patched one; in a response
  on which only headers are set and chunks written, the decision is enabled, the length
  header removed, the allow-origin header rewritten and the second chunk substituted.
\<close>

theorem implicit_flush_counterexample:
  "map_sum id shouldRewrite (performAll (Some scenarioTables) implicitFlushCalls freshResponse)
     = Inr True \<and>
   map_sum id body (performAll (Some scenarioTables) implicitFlushCalls freshResponse)
     = Inr [Str ''localhost:3000'', Str ''app.example''] \<and>
   map_sum id (getHeader ''content-length'')
     (performAll (Some scenarioTables) implicitFlushCalls freshResponse) = Inr None \<and>
   map_sum id (getHeader acao)
     (performAll (Some scenarioTables) implicitFlushCalls freshResponse)
     = Inr (Some (HStr ''http://app.example''))"
proof -
  have "performAll (Some scenarioTables) implicitFlushCalls freshResponse =
    Inr \<lparr> statusCode = 200,
          resHeaders = ([''content-type'' \<mapsto> HStr ''text/html'',
                         ''access-control-allow-origin'' \<mapsto> HStr ''http://localhost:3000''])
                       (''access-control-allow-origin'' \<mapsto> HStr ''http://app.example''),
          headersSent = True, body = [Str ''localhost:3000'', Str ''app.example''],
          finished = False, shouldRewrite = True \<rparr>"
    by (simp add: implicitFlushCalls_def run_defs scenarioTables_fields fun_upd_twist)
  then show ?thesis by (simp add: getHeader_def acao_def)
qed

text \<open>
  C10, amended. While a forward pattern exists, a write that finds the head unsent
  flushes it through the patched \<open>writeHead\<close>: for a content type that is text or
  missing the write returns with the head sent, the decision taken from the content type
  set on the response, the length header removed when the decision is enabled and a
  non-empty textual allow-origin header rewritten. A chunk written once the head is sent
  is substituted exactly when the decision is enabled.
\<close>

theorem implicit_flush_runs_patched_writeHead:
  "(\<not> headersSent g \<and> \<not> finished g \<and> textual (declaredContentType g None) \<longrightarrow>
      (\<exists>g'. writeW t d g = Inr g' \<and> headersSent g' \<and>
         shouldRewrite g' = specRewriteDecision (declaredContentType g None) \<and>
         (shouldRewrite g' \<longrightarrow> getHeader ''content-length'' g' = None) \<and>
         (\<forall>v. getHeader acao g = Some (HStr v) \<and> v \<noteq> [] \<longrightarrow>
              getHeader acao g' = Some (HStr (forwardSub t v))))) \<and>
   (headersSent g \<and> \<not> finished g \<longrightarrow>
      writeW t d g =
        Inr (g\<lparr>body := body g @ [if shouldRewrite g then Str (forwardSub t (toString d)) else d]\<rparr>))"
proof (intro conjI impI)
  assume a: "\<not> headersSent g \<and> \<not> finished g \<and> textual (declaredContentType g None)"
  then have d: "decide (declaredContentType g None) = Inr (specRewriteDecision (declaredContentType g None))"
    by (simp add: decide_textual)
  let ?args = "\<lparr>whStatus = statusCode g, whMessage = None, whHeaders = None\<rparr>"
  from a have "\<not> headersSent g" by simp
  from writeHeadW_implicit [OF this _ d, of ?args t]
  obtain g1 where w: "writeHeadW t ?args g = Inr g1" and g1: "headersSent g1"
    "shouldRewrite g1 = specRewriteDecision (declaredContentType g None)"
    "finished g1 = finished g"
    "specRewriteDecision (declaredContentType g None) \<longrightarrow> getHeader ''content-length'' g1 = None"
    "\<forall>v. getHeader acao g = Some (HStr v) \<and> v \<noteq> [] \<longrightarrow>
                getHeader acao g1 = Some (HStr (forwardSub t v))"
    by auto
  have "\<exists>x. writeW t d g = Inr (g1\<lparr>body := body g1 @ [x]\<rparr>)"
    using a w by (auto simp: writeW_def nativeWrite_def implicitHeader_def andThen_def)
  then obtain x where "writeW t d g = Inr (g1\<lparr>body := body g1 @ [x]\<rparr>)" ..
  with g1 show "\<exists>g'. writeW t d g = Inr g' \<and> headersSent g' \<and>
         shouldRewrite g' = specRewriteDecision (declaredContentType g None) \<and>
         (shouldRewrite g' \<longrightarrow> getHeader ''content-length'' g' = None) \<and>
         (\<forall>v. getHeader acao g = Some (HStr v) \<and> v \<noteq> [] \<longrightarrow>
              getHeader acao g' = Some (HStr (forwardSub t v)))"
    by (auto simp: getHeader_def)
next
  assume "headersSent g \<and> \<not> finished g"
  then show "writeW t d g =
        Inr (g\<lparr>body := body g @ [if shouldRewrite g then Str (forwardSub t (toString d)) else d]\<rparr>)"
    by (simp add: writeW_def nativeWrite_def implicitHeader_def andThen_def)
qed

theorem implicit_flush_runs_patched_writeHead_witness:
  "map_sum id shouldRewrite (writeW scenarioTables (Str ''localhost:3000'') declaredPage)
     = Inr True \<and>
   map_sum id headersSent (writeW scenarioTables (Str ''localhost:3000'') declaredPage)
     = Inr True \<and>
   map_sum id (getHeader ''content-length'')
     (writeW scenarioTables (Str ''localhost:3000'') declaredPage) = Inr None \<and>
   map_sum id (getHeader acao) (writeW scenarioTables (Str ''localhost:3000'') declaredPage)
     = Inr (Some (HStr ''http://app.example'')) \<and>
   writeW scenarioTables (Buf ''localhost:3000'')
     \<lparr> statusCode = 200, resHeaders = Map.empty, headersSent = True, body = [],
       finished = False, shouldRewrite = True \<rparr>
   = Inr \<lparr> statusCode = 200, resHeaders = Map.empty, headersSent = True,
           body = [Str ''app.example''], finished = False, shouldRewrite = True \<rparr>"
proof -
  let ?g = declaredPage
  let ?s = "\<lparr> statusCode = 200, resHeaders = Map.empty, headersSent = True, body = [],
       finished = False, shouldRewrite = True \<rparr>"
  have ct: "declaredContentType ?g None = Some (HStr ''text/html'')"
    by (simp add: declaredContentType_def declaredPage_def withHeaders_def freshResponse_def
        getHeader_def)
  have pre: "\<not> headersSent ?g \<and> \<not> finished ?g \<and> textual (declaredContentType ?g None)"
    unfolding ct by (simp add: declaredPage_def withHeaders_def freshResponse_def textual_def)
  have sp: "specRewriteDecision (Some (HStr ''text/html''))"
    by (simp add: specRewriteDecision_def)
  have ao: "getHeader acao ?g = Some (HStr ''http://localhost:3000'')"
    by (simp add: getHeader_def declaredPage_def withHeaders_def acao_def)
  have fs: "forwardSub scenarioTables ''http://localhost:3000'' = ''http://app.example''"
    "forwardSub scenarioTables ''localhost:3000'' = ''app.example''"
    by (simp_all add: forwardSub_def scenarioTables_fields lookupFunc_def replaceFunc_def reverseReplaceFunc_def)
  from implicit_flush_runs_patched_writeHead [of ?g scenarioTables "Str ''localhost:3000''"] pre
  obtain g' where g': "writeW scenarioTables (Str ''localhost:3000'') ?g = Inr g'"
    "headersSent g'" "shouldRewrite g' = specRewriteDecision (declaredContentType ?g None)"
    "shouldRewrite g' \<longrightarrow> getHeader ''content-length'' g' = None"
    "\<forall>v. getHeader acao ?g = Some (HStr v) \<and> v \<noteq> [] \<longrightarrow>
         getHeader acao g' = Some (HStr (forwardSub scenarioTables v))"
    by blast
  from g'(3) sp have sr: "shouldRewrite g'" unfolding ct by simp
  with g'(4) have cl: "getHeader ''content-length'' g' = None" by simp
  from g'(5) ao fs(1) have co: "getHeader acao g' = Some (HStr ''http://app.example'')" by simp
  have first: "map_sum id shouldRewrite (writeW scenarioTables (Str ''localhost:3000'') ?g)
       = Inr True"
    "map_sum id headersSent (writeW scenarioTables (Str ''localhost:3000'') ?g) = Inr True"
    "map_sum id (getHeader ''content-length'')
       (writeW scenarioTables (Str ''localhost:3000'') ?g) = Inr None"
    "map_sum id (getHeader acao) (writeW scenarioTables (Str ''localhost:3000'') ?g)
       = Inr (Some (HStr ''http://app.example''))"
    unfolding g'(1) using g'(2) sr cl co by simp_all
  have "headersSent ?s \<and> \<not> finished ?s" by simp
  with implicit_flush_runs_patched_writeHead [of ?s scenarioTables "Buf ''localhost:3000''"]
  have "writeW scenarioTables (Buf ''localhost:3000'') ?s =
        Inr (?s\<lparr>body := body ?s @ [if shouldRewrite ?s
              then Str (forwardSub scenarioTables (toString (Buf ''localhost:3000'')))
              else Buf ''localhost:3000'']\<rparr>)"
    by blast
  then have second: "writeW scenarioTables (Buf ''localhost:3000'') ?s
     = Inr \<lparr> statusCode = 200, resHeaders = Map.empty, headersSent = True,
           body = [Str ''app.example''], finished = False, shouldRewrite = True \<rparr>"
    by (simp add: fs)
  from first second show ?thesis by blast
qed

end
